theory Spec2Isabelle
  imports Complex_Main "HOL-Library.AList"
begin

section \<open>Batch loader (load.py)\<close>

subsection \<open>Staged data as the reader returns it\<close>

text \<open>
  A cell of a data frame. \<open>NaN\<close> is the float the CSV reader puts where a value is
  missing, \<open>PyNone\<close> is Python's \<open>None\<close> (the value the sink client serialises as a
  JSON null), \<open>Num\<close> is a number and \<open>Str\<close> a string.
\<close>

datatype cell = NaN | PyNone | Num real | Str string

record dataframe =
  columns :: "string list"
  rows :: "cell list list"

text \<open>
  A staged file as \<open>pd.read_csv\<close> sees it: a file with no header line at all makes the
  reader raise \<open>EmptyDataError\<close>; otherwise the header gives the column labels and every
  following line one row of cells.
\<close>

datatype staged_file = EmptyFile | Csv "string list" "cell list list"

datatype load_error = FileNotFoundError string | EmptyDataError | ValueError

fun read_csv :: "staged_file \<Rightarrow> load_error + dataframe" where
  "read_csv EmptyFile = Inl EmptyDataError"
| "read_csv (Csv header body) = Inr \<lparr>columns = header, rows = body\<rparr>"

text \<open>
  \<open>pd.to_datetime(col, errors="coerce").astype(str)\<close>: the library parser \<open>parse\<close> gives
  a timestamp or nothing (\<open>NaT\<close>); \<open>astype(str)\<close> prints a timestamp with the library
  formatter \<open>fmt\<close> and \<open>NaT\<close> as the string \<open>NaT\<close>.
\<close>

definition to_datetime :: "(cell \<Rightarrow> 't option) \<Rightarrow> cell \<Rightarrow> 't option" where
  "to_datetime parse v = parse v"

fun astype_str :: "('t \<Rightarrow> string) \<Rightarrow> 't option \<Rightarrow> cell" where
  "astype_str fmt None = Str ''NaT''"
| "astype_str fmt (Some t) = Str (fmt t)"

definition assign_column :: "string \<Rightarrow> (cell \<Rightarrow> cell) \<Rightarrow> dataframe \<Rightarrow> dataframe" where
  "assign_column name f df =
     df\<lparr>rows := map (\<lambda>r. map (\<lambda>(c, v). if c = name then f v else v) (zip (columns df) r))
                    (rows df)\<rparr>"

definition read_staged_csv ::
  "(cell \<Rightarrow> 't option) \<Rightarrow> ('t \<Rightarrow> string) \<Rightarrow> staged_file \<Rightarrow> load_error + dataframe" where
  "read_staged_csv parse fmt file =
     (case read_csv file of
        Inl e \<Rightarrow> Inl e
      | Inr df \<Rightarrow>
          Inr (if ''time'' \<in> set (columns df)
               then assign_column ''time'' (\<lambda>v. astype_str fmt (to_datetime parse v)) df
               else df))"

subsection \<open>Column renaming, null normalisation, records\<close>

definition rename_col :: "string \<Rightarrow> string" where
  "rename_col c =
     (if c = ''AQI'' then ''aqi_category''
      else if c = ''severity'' then ''severity_score''
      else if c = ''risk'' then ''risk_flag''
      else c)"

definition rename_columns :: "dataframe \<Rightarrow> dataframe" where
  "rename_columns df = df\<lparr>columns := map rename_col (columns df)\<rparr>"

fun notnull :: "cell \<Rightarrow> bool" where
  "notnull NaN = False"
| "notnull PyNone = False"
| "notnull (Num x) = True"
| "notnull (Str s) = True"

text \<open>
  The dtype of a column as the reader infers it: a column that holds a string (or a
  \<open>None\<close>) is an object column, any other column is a numeric one (\<open>float64\<close> when a
  value is missing).
\<close>

fun is_object :: "cell \<Rightarrow> bool" where
  "is_object (Str s) = True"
| "is_object PyNone = True"
| "is_object NaN = False"
| "is_object (Num x) = False"

definition object_column :: "dataframe \<Rightarrow> nat \<Rightarrow> bool" where
  "object_column df j = list_ex (\<lambda>r. j < length r \<and> is_object (r ! j)) (rows df)"

text \<open>
  \<open>df.where(pd.notnull(df), None)\<close>, as pandas 1.3 and later compute it: a cell is kept
  where the mask holds; elsewhere an object column takes \<open>None\<close>, while a numeric column
  takes its own missing value, since \<open>None\<close> given for a \<open>float64\<close> column is read as \<open>NaN\<close>:
  the cell stays \<open>NaN\<close>.
\<close>

definition where_notnull :: "dataframe \<Rightarrow> dataframe" where
  "where_notnull df =
     df\<lparr>rows := map (\<lambda>r. map (\<lambda>(j, v). if notnull v then v
                                        else if object_column df j then PyNone else v)
                               (enumerate 0 r))
                    (rows df)\<rparr>"

type_synonym pyrecord = "(string \<times> cell) list"

text \<open>A Python dict built from key/value pairs: a repeated key keeps its place and takes
  the later value.\<close>

definition dict_of :: "(string \<times> cell) list \<Rightarrow> pyrecord" where
  "dict_of kvs = foldl (\<lambda>d (k, v). AList.update k v d) [] kvs"

definition to_dict_records :: "dataframe \<Rightarrow> pyrecord list" where
  "to_dict_records df = map (\<lambda>r. dict_of (zip (columns df) r)) (rows df)"

subsection \<open>The sink client and what the loader does\<close>

text \<open>
  One call \<open>supabase.table(TABLE_NAME).insert(batch).execute()\<close> either returns a
  result (\<open>Returned err\<close>, with \<open>err = Some e\<close> when the result carries a truthy
  \<open>error\<close> attribute) or raises (\<open>Raised e\<close>). The sink is a step function on its own
  state.
\<close>

datatype insert_result = Returned "string option" | Raised string

datatype load_msg =
    MsgLoading nat int
  | MsgBatchError nat string
  | MsgInserted nat nat nat
  | MsgException nat string
  | MsgRetry nat nat
  | MsgBatchFailed nat
  | MsgComplete
  | MsgStats nat nat

datatype load_event = Print load_msg | Insert "pyrecord list" | Sleep nat

record 's load_state =
  inserted :: nat
  trace :: "load_event list"
  sink_st :: 's

type_synonym 's sink = "'s \<Rightarrow> pyrecord list \<Rightarrow> insert_result \<times> 's"

definition emit :: "load_event list \<Rightarrow> 's load_state \<Rightarrow> 's load_state" where
  "emit es st = st\<lparr>trace := trace st @ es\<rparr>"

text \<open>The \<open>while retries <= 2\<close> loop of one batch.\<close>

function insert_with_retry ::
  "'s sink \<Rightarrow> pyrecord list \<Rightarrow> nat \<Rightarrow> nat \<Rightarrow> nat \<Rightarrow> nat \<Rightarrow> nat \<Rightarrow> 's load_state \<Rightarrow> 's load_state" where
  "insert_with_retry sink batch batch_number i end_row total_rows retries st =
     (if retries \<le> 2 then
        (case sink (sink_st st) batch of
           (Returned err, s') \<Rightarrow>
             (case err of
                Some e \<Rightarrow>
                  emit [Insert batch, Print (MsgBatchError batch_number e)] (st\<lparr>sink_st := s'\<rparr>)
              | None \<Rightarrow>
                  (emit [Insert batch, Print (MsgInserted (i + 1) end_row total_rows)]
                     (st\<lparr>sink_st := s'\<rparr>))\<lparr>inserted := inserted st + length batch\<rparr>)
         | (Raised e, s') \<Rightarrow>
             (if retries + 1 \<le> 2 then
                insert_with_retry sink batch batch_number i end_row total_rows (retries + 1)
                  (emit [Insert batch, Print (MsgException batch_number e),
                         Print (MsgRetry batch_number (retries + 1)), Sleep 3]
                     (st\<lparr>sink_st := s'\<rparr>))
              else
                emit [Insert batch, Print (MsgException batch_number e),
                      Print (MsgBatchFailed batch_number)] (st\<lparr>sink_st := s'\<rparr>)))
      else st)"
  by pat_completeness auto
termination
  by (relation "measure (\<lambda>(sink, batch, batch_number, i, end_row, total_rows, retries, st). 3 - retries)") auto

declare insert_with_retry.simps [simp del]

text \<open>\<open>range(start, stop, step)\<close> for a positive step.\<close>

function py_range :: "nat \<Rightarrow> nat \<Rightarrow> nat \<Rightarrow> nat list" where
  "py_range start stop step =
     (if step = 0 \<or> stop \<le> start then [] else start # py_range (start + step) stop step)"
  by pat_completeness auto
termination
  by (relation "measure (\<lambda>(start, stop, step). stop - start)") auto

declare py_range.simps [simp del]

text \<open>The body of \<open>for i in range(0, total_rows, batch_size)\<close>.\<close>

definition load_batch ::
  "'s sink \<Rightarrow> pyrecord list \<Rightarrow> nat \<Rightarrow> nat \<Rightarrow> 's load_state \<Rightarrow> nat \<Rightarrow> 's load_state" where
  "load_batch sink records batch_size total_rows st i =
     (let batch = take batch_size (drop i records);
          batch_number = i div batch_size + 1;
          end_row = min (i + batch_size) total_rows
      in insert_with_retry sink batch batch_number i end_row total_rows 0 st)"

datatype 's load_result = Aborted load_error "'s load_state" | Finished "'s load_state"

definition load_to_supabase ::
  "(cell \<Rightarrow> 't option) \<Rightarrow> ('t \<Rightarrow> string) \<Rightarrow> 's sink \<Rightarrow> (string \<rightharpoonup> staged_file) \<Rightarrow>
     string \<Rightarrow> int \<Rightarrow> 's \<Rightarrow> 's load_result" where
  "load_to_supabase parse fmt sink fs staged_csv_path batch_size s0 =
     (let st0 = \<lparr>inserted = 0, trace = [], sink_st = s0\<rparr> in
      case fs staged_csv_path of
        None \<Rightarrow> Aborted (FileNotFoundError staged_csv_path) st0
      | Some file \<Rightarrow>
          (case read_staged_csv parse fmt file of
             Inl e \<Rightarrow> Aborted e st0
           | Inr df0 \<Rightarrow>
               (let df = where_notnull (rename_columns df0);
                    total_rows = length (rows df);
                    st1 = emit [Print (MsgLoading total_rows batch_size)] st0;
                    records = to_dict_records df
                in if batch_size = 0 then Aborted ValueError st1
                   else
                     (let st2 = (if batch_size < 0 then st1
                                 else foldl (load_batch sink records (nat batch_size) total_rows) st1
                                        (py_range 0 total_rows (nat batch_size)))
                      in Finished (emit [Print MsgComplete, Print (MsgStats (inserted st2) total_rows)]
                                     st2)))))"

subsection \<open>What the operator and the sink observe\<close>

fun final_state :: "'s load_result \<Rightarrow> 's load_state" where
  "final_state (Aborted e st) = st"
| "final_state (Finished st) = st"

text \<open>The payloads of the insert calls, in the order they were issued.\<close>

definition inserts :: "load_event list \<Rightarrow> pyrecord list list" where
  "inserts es = concat (map (\<lambda>e. case e of Insert b \<Rightarrow> [b] | _ \<Rightarrow> []) es)"

text \<open>The batch numbers of the lines \<open>[ERROR] Batch n failed after 2 retries.\<close>\<close>

definition failed_batches :: "load_event list \<Rightarrow> nat list" where
  "failed_batches es =
     concat (map (\<lambda>e. case e of Print (MsgBatchFailed n) \<Rightarrow> [n] | _ \<Rightarrow> []) es)"

text \<open>The first and last row of the lines \<open>[SUCCESS] Inserted rows a-b of n\<close>.\<close>

definition inserted_ranges :: "load_event list \<Rightarrow> (nat \<times> nat) list" where
  "inserted_ranges es =
     concat (map (\<lambda>e. case e of Print (MsgInserted a b n) \<Rightarrow> [(a, b)] | _ \<Rightarrow> []) es)"


text \<open>The loader's state when the first \<open>m\<close> batches of the loop are done.\<close>

definition after_batches ::
  "'s sink \<Rightarrow> pyrecord list \<Rightarrow> nat \<Rightarrow> nat \<Rightarrow> 's load_state \<Rightarrow> nat \<Rightarrow> 's load_state" where
  "after_batches sink records batch_size total_rows st m =
     foldl (load_batch sink records batch_size total_rows) st
       (take m (py_range 0 total_rows batch_size))"

section \<open>Fetcher and raw writer (extract.py)\<close>

subsection \<open>Payloads, the network and the clock\<close>

datatype json =
    JNull | JBool bool | JNum real | JStr string | JArr "json list" | JObj "(string \<times> json) list"

text \<open>The parsed body of a response is a JSON object, given by its members with keys
  distinct; the API is taken to answer with an object, as its schema says.\<close>

type_synonym json_obj = "(string \<times> json) list"

text \<open>Python truthiness of a parsed JSON value.\<close>

fun truthy :: "json \<Rightarrow> bool" where
  "truthy JNull = False"
| "truthy (JBool b) = b"
| "truthy (JNum x) = (x \<noteq> 0)"
| "truthy (JStr s) = (s \<noteq> [])"
| "truthy (JArr xs) = (xs \<noteq> [])"
| "truthy (JObj kvs) = (kvs \<noteq> [])"

text \<open>\<open>data.get(key)\<close> is \<open>None\<close> for a missing key, and \<open>None\<close> is falsy.\<close>

definition get_truthy :: "json_obj \<Rightarrow> string \<Rightarrow> bool" where
  "get_truthy data key = (case map_of data key of None \<Rightarrow> False | Some v \<Rightarrow> truthy v)"

text \<open>
  One \<open>requests.get\<close> followed by \<open>raise_for_status\<close> and \<open>json()\<close> either raises a
  \<open>RequestException\<close> (connection error, timeout, HTTP status, undecodable body) or gives
  the parsed payload.
\<close>

datatype http_result = RequestException string | Response json_obj

record datetime =
  year :: nat
  month :: nat
  day :: nat
  hour :: nat
  minute :: nat
  second :: nat

text \<open>The world outside the program: the API answers a request for a latitude and a
  longitude, the clock answers \<open>datetime.now()\<close>; both are step functions on its state.\<close>

record 'w env =
  http_get :: "'w \<Rightarrow> real \<Rightarrow> real \<Rightarrow> http_result \<times> 'w"
  now :: "'w \<Rightarrow> datetime \<times> 'w"

datatype extract_msg =
    LogRequesting string int int
  | LogNoHourly string
  | LogError string string
  | LogRetrying
  | LogFailed string int
  | LogSaved string string

datatype extract_event = Log extract_msg | Request real real | Wait nat | WriteFile string

record 'w extract_state =
  world :: 'w
  files :: "string \<rightharpoonup> json_obj"
  elog :: "extract_event list"

definition record_events :: "extract_event list \<Rightarrow> 'w extract_state \<Rightarrow> 'w extract_state" where
  "record_events es st = st\<lparr>elog := elog st @ es\<rparr>"


subsection \<open>fetch_air_quality_data\<close>

text \<open>The loop \<open>for attempt in range(1, retries + 1)\<close>, from the attempt given.\<close>

function fetch_loop ::
  "'w env \<Rightarrow> string \<Rightarrow> real \<Rightarrow> real \<Rightarrow> int \<Rightarrow> int \<Rightarrow> 'w extract_state \<Rightarrow>
     json_obj option \<times> 'w extract_state" where
  "fetch_loop E city lat lon retries attempt st =
     (if attempt \<le> retries then
        (case http_get E (world st) lat lon of
           (Response data, w') \<Rightarrow>
             (let st' = record_events [Log (LogRequesting city attempt retries), Request lat lon]
                          (st\<lparr>world := w'\<rparr>)
              in if \<not> get_truthy data ''hourly''
                 then (None, record_events [Log (LogNoHourly city)] st')
                 else (Some data, st'))
         | (RequestException e, w') \<Rightarrow>
             (let st' = record_events [Log (LogRequesting city attempt retries), Request lat lon,
                                       Log (LogError city e)] (st\<lparr>world := w'\<rparr>)
              in if attempt < retries
                 then fetch_loop E city lat lon retries (attempt + 1)
                        (record_events [Log LogRetrying, Wait 2] st')
                 else (None, record_events [Log (LogFailed city retries)] st')))
      else (None, st))"
  by pat_completeness auto
termination
  by (relation "measure (\<lambda>(E, city, lat, lon, retries, attempt, st). nat (retries + 1 - attempt))") auto

declare fetch_loop.simps [simp del]

definition fetch_air_quality_data ::
  "'w env \<Rightarrow> string \<Rightarrow> real \<Rightarrow> real \<Rightarrow> int \<Rightarrow> 'w extract_state \<Rightarrow>
     json_obj option \<times> 'w extract_state" where
  "fetch_air_quality_data E city lat lon retries st = fetch_loop E city lat lon retries 1 st"

subsection \<open>save_air_quality_data\<close>

definition digit :: "nat \<Rightarrow> char" where
  "digit n = ''0123456789'' ! (n mod 10)"

definition pad2 :: "nat \<Rightarrow> string" where
  "pad2 n = [digit (n div 10), digit n]"

definition pad4 :: "nat \<Rightarrow> string" where
  "pad4 n = [digit (n div 1000), digit (n div 100), digit (n div 10), digit n]"

text \<open>\<open>strftime("%Y%m%d_%H%M%S")\<close> of a date of four year digits.\<close>

definition strftime :: "datetime \<Rightarrow> string" where
  "strftime t =
     pad4 (year t) @ pad2 (month t) @ pad2 (day t) @ ''_'' @
     pad2 (hour t) @ pad2 (minute t) @ pad2 (second t)"

text \<open>\<open>str.lower\<close> on ASCII letters.\<close>

definition lower_char :: "char \<Rightarrow> char" where
  "lower_char c =
     (case map_of (zip ''ABCDEFGHIJKLMNOPQRSTUVWXYZ'' ''abcdefghijklmnopqrstuvwxyz'') c of
        Some d \<Rightarrow> d
      | None \<Rightarrow> c)"

definition lower :: "string \<Rightarrow> string" where
  "lower s = map lower_char s"

text \<open>Paths are written relative to the directory of the scripts.\<close>

definition RAW_DIR :: string where
  "RAW_DIR = ''data/raw''"

definition raw_filename :: "string \<Rightarrow> datetime \<Rightarrow> string" where
  "raw_filename city t = RAW_DIR @ ''/'' @ lower city @ ''_raw_'' @ strftime t @ ''.json''"

text \<open>\<open>open(filename, "w")\<close> creates the file or truncates the one that is there; the
  payload dumped is the file's new content.\<close>

definition save_air_quality_data ::
  "'w env \<Rightarrow> string \<Rightarrow> json_obj \<Rightarrow> 'w extract_state \<Rightarrow> string \<times> 'w extract_state" where
  "save_air_quality_data E city data st =
     (case now E (world st) of
        (t, w') \<Rightarrow>
          (let filename = raw_filename city t
           in (filename,
               record_events [WriteFile filename, Log (LogSaved city filename)]
                 (st\<lparr>world := w', files := (files st)(filename \<mapsto> data)\<rparr>))))"

subsection \<open>extract_air_quality_data_for_cities\<close>

record coords =
  lat :: real
  lon :: real



text \<open>The requests and waits of a log, in order.\<close>

definition actions :: "extract_event list \<Rightarrow> extract_event list" where
  "actions es = filter (\<lambda>e. case e of Request la lo \<Rightarrow> True | Wait n \<Rightarrow> True | _ \<Rightarrow> False) es"


section \<open>Pipeline orchestrator (run_pipeline.py)\<close>

datatype script = EXTRACT_SCRIPT | TRANSFORM_SCRIPT | LOAD_SCRIPT | ANALYSIS_SCRIPT

text \<open>What \<open>subprocess.run\<close> gives back for a finished child process.\<close>

record completed_process =
  returncode :: int
  stdout :: string
  stderr :: string

datatype pipe_event =
    Invoke script
  | PrintRunning script
  | PrintStdout string
  | PrintError script string
  | PrintSuccess script
  | PrintStarting
  | PrintFinished

record 'w pipe_state =
  machine :: 'w
  plog :: "pipe_event list"

text \<open>\<open>run_script\<close>: \<open>Inl code\<close> is \<open>sys.exit(code)\<close>.\<close>

definition run_script ::
  "('w \<Rightarrow> script \<Rightarrow> completed_process \<times> 'w) \<Rightarrow> script \<Rightarrow> 'w pipe_state \<Rightarrow>
     (int \<times> 'w pipe_state) + 'w pipe_state" where
  "run_script subprocess_run script_path st =
     (case subprocess_run (machine st) script_path of
        (result, w') \<Rightarrow>
          (let st' = st\<lparr>machine := w',
                        plog := plog st @ [PrintRunning script_path, Invoke script_path,
                                           PrintStdout (stdout result)]\<rparr>
           in if returncode result \<noteq> 0
              then Inl (1, st'\<lparr>plog := plog st' @ [PrintError script_path (stderr result)]\<rparr>)
              else Inr (st'\<lparr>plog := plog st' @ [PrintSuccess script_path]\<rparr>)))"

datatype 'w pipe_result = Exited int "'w pipe_state" | Completed "'w pipe_state"

text \<open>The main block: the four stages in order; an exit ends the run.\<close>

definition run_pipeline ::
  "('w \<Rightarrow> script \<Rightarrow> completed_process \<times> 'w) \<Rightarrow> 'w \<Rightarrow> 'w pipe_result" where
  "run_pipeline subprocess_run w0 =
     (case run_script subprocess_run EXTRACT_SCRIPT \<lparr>machine = w0, plog = [PrintStarting]\<rparr> of
        Inl (code, st) \<Rightarrow> Exited code st
      | Inr st1 \<Rightarrow>
          (case run_script subprocess_run TRANSFORM_SCRIPT st1 of
             Inl (code, st) \<Rightarrow> Exited code st
           | Inr st2 \<Rightarrow>
               (case run_script subprocess_run LOAD_SCRIPT st2 of
                  Inl (code, st) \<Rightarrow> Exited code st
                | Inr st3 \<Rightarrow>
                    (case run_script subprocess_run ANALYSIS_SCRIPT st3 of
                       Inl (code, st) \<Rightarrow> Exited code st
                     | Inr st4 \<Rightarrow> Completed (st4\<lparr>plog := plog st4 @ [PrintFinished]\<rparr>)))))"

text \<open>The scripts that were started, in order.\<close>

definition invoked :: "pipe_event list \<Rightarrow> script list" where
  "invoked es = concat (map (\<lambda>e. case e of Invoke s \<Rightarrow> [s] | _ \<Rightarrow> []) es)"

fun pipe_final :: "'w pipe_result \<Rightarrow> 'w pipe_state" where
  "pipe_final (Exited code st) = st"
| "pipe_final (Completed st) = st"


section \<open>Arithmetic of the batch loop\<close>










section \<open>The retry loop and the batch loop\<close>

lemma inserts_append [simp]: "inserts (xs @ ys) = inserts xs @ inserts ys"
  by (simp add: inserts_def)

lemma failed_batches_append [simp]: "failed_batches (xs @ ys) = failed_batches xs @ failed_batches ys"
  by (simp add: failed_batches_def)

lemma inserted_ranges_append [simp]: "inserted_ranges (xs @ ys) = inserted_ranges xs @ inserted_ranges ys"
  by (simp add: inserted_ranges_def)


lemma insert_inline_error:
  "retries \<le> 2 \<Longrightarrow> sink (sink_st st) batch = (Returned (Some err), s') \<Longrightarrow>
   insert_with_retry sink batch bn i e t retries st =
     st\<lparr>trace := trace st @ [Insert batch, Print (MsgBatchError bn err)],
        sink_st := s'\<rparr>"
  by (subst insert_with_retry.simps) (simp add: emit_def)





lemma length_to_dict_records [simp]: "length (to_dict_records df) = length (rows df)"
  by (simp add: to_dict_records_def)

lemma rows_prepared [simp]: "length (rows (where_notnull (rename_columns df))) = length (rows df)"
  by (simp add: where_notnull_def rename_columns_def)



section \<open>The state of the loader between batches\<close>


lemma after_batches_0 [simp]: "after_batches sink recs B N st 0 = st"
  by (simp add: after_batches_def)



lemma failed_batches_simps [simp]:
  "failed_batches [] = []"
  "failed_batches (Print (MsgBatchFailed n) # es) = n # failed_batches es"
  "failed_batches (Insert b # es) = failed_batches es"
  "failed_batches (Sleep d # es) = failed_batches es"
  "failed_batches (Print (MsgLoading a c) # es) = failed_batches es"
  "failed_batches (Print (MsgBatchError n e) # es) = failed_batches es"
  "failed_batches (Print (MsgInserted a1 a2 a3) # es) = failed_batches es"
  "failed_batches (Print (MsgException n e) # es) = failed_batches es"
  "failed_batches (Print (MsgRetry n r) # es) = failed_batches es"
  "failed_batches (Print MsgComplete # es) = failed_batches es"
  "failed_batches (Print (MsgStats a1 a2) # es) = failed_batches es"
  by (simp_all add: failed_batches_def)

lemma inserted_ranges_simps [simp]:
  "inserted_ranges [] = []"
  "inserted_ranges (Print (MsgInserted a1 a2 a3) # es) = (a1, a2) # inserted_ranges es"
  "inserted_ranges (Insert b # es) = inserted_ranges es"
  "inserted_ranges (Sleep d # es) = inserted_ranges es"
  "inserted_ranges (Print (MsgLoading a c) # es) = inserted_ranges es"
  "inserted_ranges (Print (MsgBatchError n e) # es) = inserted_ranges es"
  "inserted_ranges (Print (MsgBatchFailed n) # es) = inserted_ranges es"
  "inserted_ranges (Print (MsgException n e) # es) = inserted_ranges es"
  "inserted_ranges (Print (MsgRetry n r) # es) = inserted_ranges es"
  "inserted_ranges (Print MsgComplete # es) = inserted_ranges es"
  "inserted_ranges (Print (MsgStats a1 a2) # es) = inserted_ranges es"
  by (simp_all add: inserted_ranges_def)




section \<open>The fetch loop and the loop over the cities\<close>

lemma actions_append [simp]: "actions (xs @ ys) = actions xs @ actions ys"
  by (simp add: actions_def)

lemma invoked_append [simp]: "invoked (xs @ ys) = invoked xs @ invoked ys"
  by (simp add: invoked_def)








section \<open>The records and the payloads of a load\<close>














lemma py_range_empty: "py_range 0 0 n = []"
  by (subst py_range.simps) simp

section \<open>Batching when every insert succeeds\<close>




section \<open>An error returned inline by the sink client\<close>

text \<open>
  C1. The claim is that a batch whose insert call returns an inline error object is
  retried up to twice more with a wait of 3 seconds, as a raised error is. The loader run
  on one staged row against a sink that answers every insert with an inline error issues
  a single insert call, waits never, logs the warning and goes on to the end of the load:
  the \<open>break\<close> follows both branches of the error check.
\<close>

theorem load_inline_error_single_attempt:
  "load_to_supabase (\<lambda>v. None :: nat option) (\<lambda>t. ''t'')
      (\<lambda>(s::nat) b. (Returned (Some ''duplicate key''), s + 1))
      [''staged.csv'' \<mapsto> Csv [''city'', ''pm10''] [[Str ''Delhi'', Num 1]]] ''staged.csv'' 200 0
   = Finished
       \<lparr>inserted = 0,
        trace = [Print (MsgLoading 1 200),
                 Insert [[(''city'', Str ''Delhi''), (''pm10'', Num 1)]],
                 Print (MsgBatchError 1 ''duplicate key''),
                 Print MsgComplete, Print (MsgStats 0 1)],
        sink_st = 1\<rparr>"
  by (simp add: load_to_supabase_def read_staged_csv_def rename_columns_def where_notnull_def object_column_def
      to_dict_records_def dict_of_def rename_col_def load_batch_def py_range.simps
      insert_with_retry.simps emit_def Let_def)

section \<open>A failing transform stage\<close>

text \<open>
  C8. In a run in which the extract script exits with code 0 and the transform script
  exits with a code other than 0, the orchestrator exits with code 1 right after the
  transform stage: the scripts started in that run are extract and transform, and the load
  and analysis scripts are never started.
\<close>

theorem transform_failure_halts:
  assumes "subprocess_run w0 EXTRACT_SCRIPT = (r1, w1)" and "returncode r1 = 0"
    and "subprocess_run w1 TRANSFORM_SCRIPT = (r2, w2)" and "returncode r2 \<noteq> 0"
  shows "\<exists>st. run_pipeline subprocess_run w0 = Exited 1 st
            \<and> invoked (plog st) = [EXTRACT_SCRIPT, TRANSFORM_SCRIPT]
            \<and> LOAD_SCRIPT \<notin> set (invoked (plog st))
            \<and> ANALYSIS_SCRIPT \<notin> set (invoked (plog st))"
  using assms by (simp add: run_pipeline_def run_script_def Let_def invoked_def)

theorem transform_failure_halts_witness:
  "run_pipeline (\<lambda>(w::nat) s. (\<lparr>returncode = (if s = TRANSFORM_SCRIPT then 2 else 0),
                                  stdout = ''out'', stderr = ''err''\<rparr>, w + 1)) 0
   = Exited 1 \<lparr>machine = 2,
               plog = [PrintStarting,
                       PrintRunning EXTRACT_SCRIPT, Invoke EXTRACT_SCRIPT, PrintStdout ''out'',
                       PrintSuccess EXTRACT_SCRIPT,
                       PrintRunning TRANSFORM_SCRIPT, Invoke TRANSFORM_SCRIPT, PrintStdout ''out'',
                       PrintError TRANSFORM_SCRIPT ''err'']\<rparr>"
  using transform_failure_halts[where subprocess_run = "\<lambda>(w::nat) s. (\<lparr>returncode = (if s = TRANSFORM_SCRIPT then 2 else 0),
                                  stdout = ''out'', stderr = ''err''\<rparr>, w + 1)" and ?w0.0 = 0
      and ?r1.0 = "\<lparr>returncode = 0, stdout = ''out'', stderr = ''err''\<rparr>" and ?w1.0 = 1
      and ?r2.0 = "\<lparr>returncode = 2, stdout = ''out'', stderr = ''err''\<rparr>" and ?w2.0 = 2]
  by (simp add: run_pipeline_def run_script_def Let_def)

section \<open>A payload without hourly data\<close>

text \<open>
  C5. When the request of the first attempt succeeds and the payload has no \<open>hourly\<close>
  member, or has it empty (falsy), the fetcher returns \<open>None\<close> for that city after that one
  request: it logs the empty response, requests nothing more and waits never.
\<close>

theorem fetch_no_hourly_single_attempt:
  assumes "1 \<le> retries" and "http_get E (world st) la lo = (Response data, w')"
    and "\<not> get_truthy data ''hourly''"
  shows "fetch_air_quality_data E city la lo retries st =
           (None, st\<lparr>world := w',
                     elog := elog st @ [Log (LogRequesting city 1 retries), Request la lo,
                                        Log (LogNoHourly city)]\<rparr>)"
  using assms unfolding fetch_air_quality_data_def
  by (subst fetch_loop.simps) (simp add: record_events_def Let_def)

theorem fetch_no_hourly_single_attempt_witness:
  "fetch_air_quality_data
     \<lparr>http_get = (\<lambda>(w::nat) la lo. (Response [(''latitude'', JNum 28)], w + 1)),
      now = (\<lambda>w. (\<lparr>year = 2025, month = 1, day = 2, hour = 3, minute = 4, second = 5\<rparr>, w + 1))\<rparr>
     ''Delhi'' 28 77 3 \<lparr>world = 0, files = Map.empty, elog = []\<rparr>
   = (None, \<lparr>world = 1, files = Map.empty,
              elog = [Log (LogRequesting ''Delhi'' 1 3), Request 28 77, Log (LogNoHourly ''Delhi'')]\<rparr>)"
  using fetch_no_hourly_single_attempt[where E = "\<lparr>http_get = (\<lambda>(w::nat) la lo. (Response [(''latitude'', JNum 28)], w + 1)),
      now = (\<lambda>w. (\<lparr>year = 2025, month = 1, day = 2, hour = 3, minute = 4, second = 5\<rparr>, w + 1))\<rparr>"
      and retries = 3 and st = "\<lparr>world = 0, files = Map.empty, elog = []\<rparr>" and la = 28 and lo = 77
      and data = "[(''latitude'', JNum 28)]" and w' = 1 and city = "''Delhi''"]
  by (simp add: get_truthy_def)

section \<open>A city whose every request fails\<close>



section \<open>What the raw writer writes\<close>

text \<open>
  C9. The claim is that the raw writer never overwrites an existing artifact. A file that
  already has the name of the new artifact is replaced: the file is opened for writing
  whether it exists or not.
\<close>

theorem save_overwrites_counterexample:
  "files (snd (save_air_quality_data
     \<lparr>http_get = (\<lambda>(w::nat) la lo. (RequestException ''down'', w)),
      now = (\<lambda>w. (\<lparr>year = 2025, month = 1, day = 2, hour = 3, minute = 4, second = 5\<rparr>, w + 1))\<rparr>
     ''Delhi'' [(''hourly'', JObj [(''pm10'', JArr [JNum 2])])]
     \<lparr>world = 0, files = [''data/raw/delhi_raw_20250102_030405.json'' \<mapsto> [(''hourly'', JObj [(''pm10'', JArr [JNum 1])])]], elog = []\<rparr>))
       ''data/raw/delhi_raw_20250102_030405.json''
   \<noteq> files \<lparr>world = 0::nat, files = [''data/raw/delhi_raw_20250102_030405.json'' \<mapsto> [(''hourly'', JObj [(''pm10'', JArr [JNum 1])])]], elog = []\<rparr>
       ''data/raw/delhi_raw_20250102_030405.json''"
  by (simp add: save_air_quality_data_def raw_filename_def RAW_DIR_def lower_def lower_char_def
      strftime_def pad2_def pad4_def digit_def record_events_def Let_def)

text \<open>
  C9, as the code has it. The raw writer writes the payload to the file
  \<open>data/raw/{city in lower case}_raw_{YYYYMMDD_HHMMSS}.json\<close>, named by the clock's reading,
  and returns that path; every file of another name has the contents it had before.
\<close>

theorem save_writes_named_file:
  assumes "now E (world st) = (t, w')"
  shows "\<exists>st'. save_air_quality_data E city data st =
                 (''data/raw/'' @ lower city @ ''_raw_'' @ strftime t @ ''.json'', st')
             \<and> files st' (''data/raw/'' @ lower city @ ''_raw_'' @ strftime t @ ''.json'') = Some data
             \<and> (\<forall>p. p \<noteq> ''data/raw/'' @ lower city @ ''_raw_'' @ strftime t @ ''.json''
                    \<longrightarrow> files st' p = files st p)"
  using assms
  by (simp add: save_air_quality_data_def raw_filename_def RAW_DIR_def record_events_def Let_def)

theorem save_writes_named_file_witness:
  "fst (save_air_quality_data
     \<lparr>http_get = (\<lambda>(w::nat) la lo. (RequestException ''down'', w)),
      now = (\<lambda>w. (\<lparr>year = 2025, month = 1, day = 2, hour = 3, minute = 4, second = 5\<rparr>, w + 1))\<rparr>
     ''Delhi'' [(''hourly'', JObj [(''pm10'', JArr [JNum 2])])]
     \<lparr>world = 0, files = [''data/raw/mumbai_raw_20250102_030405.json'' \<mapsto> [(''hourly'', JObj [(''pm10'', JArr [JNum 1])])]], elog = []\<rparr>)
   = ''data/raw/delhi_raw_20250102_030405.json''
   \<and> files (snd (save_air_quality_data
     \<lparr>http_get = (\<lambda>(w::nat) la lo. (RequestException ''down'', w)),
      now = (\<lambda>w. (\<lparr>year = 2025, month = 1, day = 2, hour = 3, minute = 4, second = 5\<rparr>, w + 1))\<rparr>
     ''Delhi'' [(''hourly'', JObj [(''pm10'', JArr [JNum 2])])]
     \<lparr>world = 0, files = [''data/raw/mumbai_raw_20250102_030405.json'' \<mapsto> [(''hourly'', JObj [(''pm10'', JArr [JNum 1])])]], elog = []\<rparr>))
       ''data/raw/mumbai_raw_20250102_030405.json''
     = Some [(''hourly'', JObj [(''pm10'', JArr [JNum 1])])]"
  using save_writes_named_file[where E = "\<lparr>http_get = (\<lambda>(w::nat) la lo. (RequestException ''down'', w)),
      now = (\<lambda>w. (\<lparr>year = 2025, month = 1, day = 2, hour = 3, minute = 4, second = 5\<rparr>, w + 1))\<rparr>"
      and st = "\<lparr>world = 0, files = [''data/raw/mumbai_raw_20250102_030405.json'' \<mapsto> [(''hourly'', JObj [(''pm10'', JArr [JNum 1])])]], elog = []\<rparr>"
      and t = "\<lparr>year = 2025, month = 1, day = 2, hour = 3, minute = 4, second = 5\<rparr>" and w' = 1
      and city = "''Delhi''" and data = "[(''hourly'', JObj [(''pm10'', JArr [JNum 2])])]"]
  by (simp add: save_air_quality_data_def raw_filename_def RAW_DIR_def lower_def lower_char_def
      strftime_def pad2_def pad4_def digit_def record_events_def Let_def)

section \<open>A batch that fails on all three attempts\<close>




section \<open>Null numeric fields\<close>

text \<open>
  C7. The claim, and the comment of the loader on its line \<open>df.where(pd.notnull(df), None)\<close>,
  say that a missing numeric value reaches the sink as a null. The loader run on two rows,
  the first with a missing \<open>pm10\<close> and the second with a missing \<open>AQI\<close>, passes the missing
  category as \<open>None\<close> and the missing number as the float \<open>NaN\<close>: the numeric column keeps
  its \<open>NaN\<close>.
\<close>

theorem load_numeric_nan_submitted_as_nan:
  "inserts (trace (final_state (load_to_supabase
      (\<lambda>v. if v = Str ''2025-01-01T00:00'' then Some (0::nat) else None) (\<lambda>t. ''2025-01-01 00:00:00'')
      (\<lambda>(s::nat) b. (Returned None, s + 1))
      [''staged.csv'' \<mapsto> Csv [''city'', ''time'', ''pm10'', ''AQI'']
                          [[Str ''Delhi'', Str ''2025-01-01T00:00'', NaN, Str ''Good''],
                           [Str ''Mumbai'', Str ''2025-01-01T00:00'', Num 7, NaN]]]
      ''staged.csv'' 200 0)))
   = [[[(''city'', Str ''Delhi''), (''time'', Str ''2025-01-01 00:00:00''), (''pm10'', NaN),
        (''aqi_category'', Str ''Good'')],
       [(''city'', Str ''Mumbai''), (''time'', Str ''2025-01-01 00:00:00''), (''pm10'', Num 7),
        (''aqi_category'', PyNone)]]]"
  by (simp add: load_to_supabase_def read_staged_csv_def assign_column_def to_datetime_def
      rename_columns_def where_notnull_def object_column_def to_dict_records_def dict_of_def
      rename_col_def load_batch_def py_range.simps insert_with_retry.simps emit_def inserts_def
      Let_def)

section \<open>Timestamps that do not parse\<close>



section \<open>A missing or rowless staged file\<close>

text \<open>
  C6. The claim is that the load fails with a missing-input error also when the staged
  file exists and has no rows. On a file that has a header line and no rows the load
  raises nothing: it prints its first line, issues no insert call and ends with 0 of 0
  rows.
\<close>

theorem load_rowless_file_counterexample:
  "load_to_supabase (\<lambda>v. None :: nat option) (\<lambda>t. ''t'') (\<lambda>(s::nat) b. (Returned None, s + 1))
      [''staged.csv'' \<mapsto> Csv [''city'', ''time'', ''pm10''] []] ''staged.csv'' 200 0
   = Finished \<lparr>inserted = 0,
               trace = [Print (MsgLoading 0 200), Print MsgComplete, Print (MsgStats 0 0)],
               sink_st = 0\<rparr>"
  by (simp add: load_to_supabase_def read_staged_csv_def assign_column_def where_notnull_def object_column_def
      rename_columns_def to_dict_records_def emit_def py_range_empty Let_def)

text \<open>
  C6, as the code has it. The load raises \<open>FileNotFoundError\<close> when the staged file does
  not exist; on a file with a header and no rows (and a batch size other than 0) it runs
  to its end with no insert call and 0 of 0 rows; and it issues an insert call only when
  the file exists and has at least one row.
\<close>

theorem load_missing_or_rowless_input:
  fixes sink :: "'s sink" and parse :: "cell \<Rightarrow> 't option" and s0 :: 's
  shows "(fs path = None \<longrightarrow>
            load_to_supabase parse fmt sink fs path B s0 =
              Aborted (FileNotFoundError path) \<lparr>inserted = 0, trace = [], sink_st = s0\<rparr>)
       \<and> (fs path = Some (Csv cols []) \<and> B \<noteq> 0 \<longrightarrow>
            load_to_supabase parse fmt sink fs path B s0 =
              Finished \<lparr>inserted = 0,
                        trace = [Print (MsgLoading 0 B), Print MsgComplete, Print (MsgStats 0 0)],
                        sink_st = s0\<rparr>)
       \<and> (inserts (trace (final_state (load_to_supabase parse fmt sink fs path B s0))) \<noteq> [] \<longrightarrow>
            (\<exists>header body. fs path = Some (Csv header body) \<and> body \<noteq> []))"
proof (intro conjI impI)
  assume "fs path = None"
  then show "load_to_supabase parse fmt sink fs path B s0 =
              Aborted (FileNotFoundError path) \<lparr>inserted = 0, trace = [], sink_st = s0\<rparr>"
    by (simp add: load_to_supabase_def)
next
  assume "fs path = Some (Csv cols []) \<and> B \<noteq> 0"
  then show "load_to_supabase parse fmt sink fs path B s0 =
              Finished \<lparr>inserted = 0,
                        trace = [Print (MsgLoading 0 B), Print MsgComplete, Print (MsgStats 0 0)],
                        sink_st = s0\<rparr>"
    by (simp add: load_to_supabase_def read_staged_csv_def assign_column_def where_notnull_def object_column_def
        rename_columns_def to_dict_records_def emit_def py_range_empty Let_def)
next
  assume ne: "inserts (trace (final_state (load_to_supabase parse fmt sink fs path B s0))) \<noteq> []"
  show "\<exists>header body. fs path = Some (Csv header body) \<and> body \<noteq> []"
  proof (cases "fs path")
    case None
    with ne show ?thesis by (simp add: load_to_supabase_def inserts_def)
  next
    case (Some sfile)
    show ?thesis
    proof (cases sfile)
      case EmptyFile
      with ne Some show ?thesis
        by (simp add: load_to_supabase_def read_staged_csv_def inserts_def)
    next
      case (Csv header body)
      have "body \<noteq> []"
      proof
        assume "body = []"
        with ne Some Csv show False
          by (simp add: load_to_supabase_def read_staged_csv_def assign_column_def where_notnull_def object_column_def
              rename_columns_def to_dict_records_def emit_def py_range_empty Let_def inserts_def
              split: if_splits)
      qed
      with Some Csv show ?thesis by simp
    qed
  qed
qed

theorem load_missing_or_rowless_input_witness:
  "load_to_supabase (\<lambda>v. None :: nat option) (\<lambda>t. ''t'') (\<lambda>(s::nat) b. (Returned None, s + 1))
      Map.empty ''staged.csv'' 200 0
   = Aborted (FileNotFoundError ''staged.csv'') \<lparr>inserted = 0, trace = [], sink_st = 0\<rparr>
   \<and> load_to_supabase (\<lambda>v. None :: nat option) (\<lambda>t. ''t'') (\<lambda>(s::nat) b. (Returned None, s + 1))
      [''staged.csv'' \<mapsto> Csv [''city''] []] ''staged.csv'' 50 0
   = Finished \<lparr>inserted = 0,
               trace = [Print (MsgLoading 0 50), Print MsgComplete, Print (MsgStats 0 0)],
               sink_st = 0\<rparr>"
  using load_missing_or_rowless_input[where fs = "Map.empty" and path = "''staged.csv''"
      and parse = "\<lambda>v. None :: nat option" and fmt = "\<lambda>t. ''t''" and B = 200
      and sink = "\<lambda>(s::nat) b. (Returned None, s + 1)" and ?s0.0 = 0]
    load_missing_or_rowless_input[where fs = "[''staged.csv'' \<mapsto> Csv [''city''] []]"
      and path = "''staged.csv''" and cols = "[''city'']"
      and parse = "\<lambda>v. None :: nat option" and fmt = "\<lambda>t. ''t''" and B = 50
      and sink = "\<lambda>(s::nat) b. (Returned None, s + 1)" and ?s0.0 = 0]
  by simp

end
